theory Spec2Isabelle
  imports Main
begin

section \<open>JavaScript values, truthiness and exceptions\<close>

text \<open>
  The handlers of \<^verbatim>\<open>functions/src/index.ts\<close> read fields of Firestore documents. A string
  field that is only ever tested for truthiness is a \<open>string option\<close>: \<open>None\<close> stands for
  JavaScript's \<^verbatim>\<open>undefined\<close> and \<^verbatim>\<open>null\<close>, which such a test does not tell apart. \<open>truthy\<close> is
  the test made by \<^verbatim>\<open>if (x)\<close>, \<^verbatim>\<open>!x\<close> and \<^verbatim>\<open>x || y\<close>: a missing field and the empty string
  are falsy.
\<close>

definition truthy :: "string option \<Rightarrow> bool" where
  "truthy v = (case v of None \<Rightarrow> False | Some s \<Rightarrow> s \<noteq> [])"

definition js_or :: "string option \<Rightarrow> string option \<Rightarrow> string option" where
  \<comment> \<open>\<^verbatim>\<open>a || b\<close> on two fields\<close>
  "js_or a b = (if truthy a then a else b)"

definition or_default :: "string option \<Rightarrow> string \<Rightarrow> string" where
  \<comment> \<open>\<^verbatim>\<open>a || 'literal'\<close>\<close>
  "or_default a d = (case a of None \<Rightarrow> d | Some s \<Rightarrow> if s = [] then d else s)"

definition truthy_tokens :: "string option list \<Rightarrow> string list" where
  \<comment> \<open>\<^verbatim>\<open>.filter(token => token)\<close>\<close>
  "truthy_tokens vs = concat (map (\<lambda>v. case v of None \<Rightarrow> [] | Some s \<Rightarrow> if s = [] then [] else [s]) vs)"

text \<open>
  The status fields of a booking and the approval flag of a farmhouse are compared with
  \<^verbatim>\<open>===\<close>, which tells \<^verbatim>\<open>null\<close> (a field stored as null) from \<^verbatim>\<open>undefined\<close> (a field that is
  missing), and the approval flag is also tested for truthiness and printed with
  \<^verbatim>\<open>String(...)\<close>. Such a field holds a primitive value: undefined, null, a boolean or a
  string. On these values \<^verbatim>\<open>===\<close> is equality and \<^verbatim>\<open>!==\<close> is its negation.
\<close>

datatype jsval = JUndefined | JNull | JBool bool | JStr string



text \<open>
  A value caught by \<^verbatim>\<open>catch (error)\<close>: an instance of \<^verbatim>\<open>Error\<close> with its message, or
  any other thrown value.
\<close>

datatype exn = Error string | NonError

definition error_text :: "exn \<Rightarrow> string" where
  \<comment> \<open>\<^verbatim>\<open>error instanceof Error ? error.message : 'Unknown error'\<close>\<close>
  "error_text e = (case e of Error m \<Rightarrow> m | NonError \<Rightarrow> ''Unknown error'')"

section \<open>Documents, payloads and the environment\<close>

record user =
  fcmToken :: "string option"
  role :: "string option"
  is_active :: bool

record notification =
  title :: string
  body :: string

record fcm_base =
  notification :: notification
  data :: "(string \<times> jsval) list"
  android_priority :: string
  android_sound :: string
  android_channelId :: string
  apns_sound :: string
  apns_badge :: nat

record multicast_message = fcm_base +
  tokens :: "string list"

record message = fcm_base +
  token :: string

record batch_response =
  successCount :: nat
  failureCount :: nat

datatype field_value = ServerTimestamp

record delivery_status =
  success :: nat
  failure :: nat

text \<open>The fields set by one \<^verbatim>\<open>snap.ref.update({...})\<close>; \<open>None\<close> is a field the call leaves alone.\<close>

record comm_update =
  notificationSent :: bool
  notificationSentAt :: "field_value option"
  deliveryStatus :: "delivery_status option"
  notificationError :: "string option"

text \<open>
  Every call a handler makes to Firestore or to the messaging service, in the order it is
  made; a call is recorded whether it returns or throws.
\<close>

datatype effect =
    Get_users
  | Get_users_where_role string
  | Get_user string
  | SendEachForMulticast multicast_message
  | Send message
  | Update comm_update

text \<open>
  What the outside world answers. Each handler reads the \<^verbatim>\<open>users\<close> collection once, so one
  outcome of that read is enough: the documents in the collection with their ids, or the
  exception the read throws. The messaging calls and the write-back return or throw.
  \<open>now\<close> is \<^verbatim>\<open>new Date().toISOString()\<close>.
\<close>

record env =
  firestore_users :: "exn + (string \<times> user) list"
  messaging_sendEachForMulticast :: "multicast_message \<Rightarrow> exn + batch_response"
  messaging_send :: "message \<Rightarrow> exn + string"
  ref_update :: "comm_update \<Rightarrow> exn option"
  now :: string

definition doc_field :: "(string \<times> user) list \<Rightarrow> string \<Rightarrow> (user \<Rightarrow> string option) \<Rightarrow> string option" where
  \<comment> \<open>\<^verbatim>\<open>userDoc.data()?.f\<close> for the document \<^verbatim>\<open>users/uid\<close>: undefined when the document does not exist\<close>
  "doc_field docs uid f = (case map_of docs uid of None \<Rightarrow> None | Some d \<Rightarrow> f d)"

section \<open>sendCommunicationNotification\<close>

record communication =
  recipientType :: "string option"
  recipientId :: "string option"
  recipientRole :: "string option"
  title :: "string option"
  message :: "string option"
  type :: "string option"

text \<open>
  Lines 17 to 46: the token list built from the recipient selector, with the Firestore read
  it makes. A selector that matches none of the three branches leaves the list empty and
  reads nothing.
\<close>

definition recipientTokens :: "env \<Rightarrow> communication \<Rightarrow> effect list \<times> (exn + string list)" where
  "recipientTokens env communication =
    (if recipientType communication = Some ''all_users'' then
       (case firestore_users env of
          Inl e \<Rightarrow> ([Get_users], Inl e)
        | Inr docs \<Rightarrow> ([Get_users], Inr (truthy_tokens (map (\<lambda>doc. fcmToken (snd doc)) docs))))
     else if recipientType communication = Some ''specific_user'' \<and> truthy (recipientId communication) then
       (case recipientId communication of
          None \<Rightarrow> ([], Inr [])
        | Some uid \<Rightarrow>
            (case firestore_users env of
               Inl e \<Rightarrow> ([Get_user uid], Inl e)
             | Inr docs \<Rightarrow> ([Get_user uid], Inr (truthy_tokens [doc_field docs uid fcmToken]))))
     else if recipientType communication = Some ''role'' \<and> truthy (recipientRole communication) then
       (case recipientRole communication of
          None \<Rightarrow> ([], Inr [])
        | Some r \<Rightarrow>
            (case firestore_users env of
               Inl e \<Rightarrow> ([Get_users_where_role r], Inl e)
             | Inr docs \<Rightarrow>
                 ([Get_users_where_role r],
                  Inr (truthy_tokens (map (\<lambda>doc. fcmToken (snd doc))
                         (filter (\<lambda>doc. role (snd doc) = Some r) docs))))))
     else ([], Inr []))"

definition communication_payload :: "env \<Rightarrow> string \<Rightarrow> communication \<Rightarrow> string list \<Rightarrow> multicast_message" where
  "communication_payload env communicationId communication ts =
    \<lparr>notification = \<lparr>notification.title = or_default (title communication) ''New Message'',
                      body = or_default (message communication) ''''\<rparr>,
     data = [(''communicationId'', JStr communicationId),
             (''type'', JStr (or_default (type communication) ''general'')),
             (''timestamp'', JStr (now env))],
     android_priority = ''high'', android_sound = ''default'',
     android_channelId = ''reroute_notifications'',
     apns_sound = ''default'', apns_badge = 1,
     tokens = ts\<rparr>"

definition sent_update :: "batch_response \<Rightarrow> comm_update" where
  "sent_update response =
    \<lparr>notificationSent = True, notificationSentAt = Some ServerTimestamp,
     deliveryStatus = Some \<lparr>delivery_status.success = successCount response,
                            failure = failureCount response\<rparr>,
     notificationError = None\<rparr>"

definition error_update :: "exn \<Rightarrow> comm_update" where
  "error_update e =
    \<lparr>notificationSent = False, notificationSentAt = None, deliveryStatus = None,
     notificationError = Some (error_text e)\<rparr>"

text \<open>
  The body of the \<^verbatim>\<open>try\<close> block (lines 15 to 100): \<open>Inl e\<close> is an exception that reaches the
  \<^verbatim>\<open>catch\<close>, \<open>Inr None\<close> the early \<^verbatim>\<open>return null\<close>, \<open>Inr (Some response)\<close> the normal return.
\<close>

definition sendCommunication_try :: "env \<Rightarrow> string \<Rightarrow> communication \<Rightarrow> effect list \<times> (exn + batch_response option)" where
  "sendCommunication_try env communicationId communication =
    (case recipientTokens env communication of
       (effs, Inl e) \<Rightarrow> (effs, Inl e)
     | (effs, Inr ts) \<Rightarrow>
         if length ts = 0 then (effs, Inr None)
         else
           (let payload = communication_payload env communicationId communication ts in
            case messaging_sendEachForMulticast env payload of
              Inl e \<Rightarrow> (effs @ [SendEachForMulticast payload], Inl e)
            | Inr response \<Rightarrow>
                (case ref_update env (sent_update response) of
                   Some e \<Rightarrow> (effs @ [SendEachForMulticast payload, Update (sent_update response)], Inl e)
                 | None \<Rightarrow> (effs @ [SendEachForMulticast payload, Update (sent_update response)],
                            Inr (Some response)))))"

text \<open>
  The handler: the \<^verbatim>\<open>catch\<close> block (lines 101 to 111) writes the error status and returns
  null; an exception of that write leaves the handler (\<open>Inl\<close>).
\<close>

definition sendCommunicationNotification :: "env \<Rightarrow> string \<Rightarrow> communication \<Rightarrow> effect list \<times> (exn + batch_response option)" where
  "sendCommunicationNotification env communicationId communication =
    (case sendCommunication_try env communicationId communication of
       (effs, Inr r) \<Rightarrow> (effs, Inr r)
     | (effs, Inl error) \<Rightarrow>
         (case ref_update env (error_update error) of
            Some e \<Rightarrow> (effs @ [Update (error_update error)], Inl e)
          | None \<Rightarrow> (effs @ [Update (error_update error)], Inr None)))"

section \<open>sendBookingStatusNotification\<close>

record booking =
  bookingStatus :: jsval
  paymentStatus :: jsval
  userId :: "string option"
  user_id :: "string option"

text \<open>
  Lines 148 to 182: title and body start at their defaults; a \<^verbatim>\<open>switch\<close> without a
  \<^verbatim>\<open>default\<close> case leaves them as they are when no \<^verbatim>\<open>case\<close> matches.
\<close>

definition booking_title_body :: "booking \<Rightarrow> booking \<Rightarrow> string \<times> string" where
  "booking_title_body before after =
    (if bookingStatus before \<noteq> bookingStatus after then
       (if bookingStatus after = JStr ''confirmed'' then
          (''Booking Confirmed'', ''Your booking has been confirmed!'')
        else if bookingStatus after = JStr ''cancelled'' then
          (''Booking Cancelled'', ''Your booking has been cancelled.'')
        else if bookingStatus after = JStr ''completed'' then
          (''Booking Completed'', ''Thank you for using our service!'')
        else (''Booking Update'', ''''))
     else if paymentStatus before \<noteq> paymentStatus after then
       (if paymentStatus after = JStr ''paid'' then
          (''Payment Successful'', ''Your payment has been received.'')
        else if paymentStatus after = JStr ''failed'' then
          (''Payment Failed'', ''Your payment could not be processed.'')
        else if paymentStatus after = JStr ''refunded'' then
          (''Payment Refunded'', ''Your payment has been refunded.'')
        else (''Booking Update'', ''''))
     else (''Booking Update'', ''''))"

definition booking_payload :: "string \<Rightarrow> booking \<Rightarrow> booking \<Rightarrow> string \<Rightarrow> message" where
  "booking_payload bookingId before after tok =
    \<lparr>notification = \<lparr>notification.title = fst (booking_title_body before after),
                      body = snd (booking_title_body before after)\<rparr>,
     data = [(''bookingId'', JStr bookingId),
             (''type'', JStr ''booking_update''),
             (''bookingStatus'', bookingStatus after),
             (''paymentStatus'', paymentStatus after)],
     android_priority = ''high'', android_sound = ''default'',
     android_channelId = ''reroute_notifications'',
     apns_sound = ''default'', apns_badge = 1,
     token = tok\<rparr>"

text \<open>
  The handler returns \<^verbatim>\<open>true\<close> after a send and \<^verbatim>\<open>null\<close> otherwise; its \<^verbatim>\<open>catch\<close> block
  logs the exception and returns \<^verbatim>\<open>null\<close>, so no exception leaves it.
\<close>

datatype trigger_result = Null | True_result

definition sendBookingStatusNotification :: "env \<Rightarrow> string \<Rightarrow> booking \<Rightarrow> booking \<Rightarrow> effect list \<times> trigger_result" where
  "sendBookingStatusNotification env bookingId before after =
    (if bookingStatus before = bookingStatus after \<and> paymentStatus before = paymentStatus after
     then ([], Null)
     else
       (case js_or (userId after) (user_id after) of
          None \<Rightarrow> ([], Null)
        | Some uid \<Rightarrow>
            if uid = [] then ([], Null)
            else
              (case firestore_users env of
                 Inl e \<Rightarrow> ([Get_user uid], Null)
               | Inr docs \<Rightarrow>
                   (case doc_field docs uid fcmToken of
                      None \<Rightarrow> ([Get_user uid], Null)
                    | Some tok \<Rightarrow>
                        if tok = [] then ([Get_user uid], Null)
                        else
                          (let payload = booking_payload bookingId before after tok in
                           case messaging_send env payload of
                             Inl e \<Rightarrow> ([Get_user uid, Send payload], Null)
                           | Inr _ \<Rightarrow> ([Get_user uid, Send payload], True_result))))))"

section \<open>sendFarmhouseStatusNotification\<close>





section \<open>sendManualNotification\<close>

text \<open>
  The callable throws \<^verbatim>\<open>HttpsError(code, message)\<close> itself; an exception of the admin
  lookup, which is outside the \<^verbatim>\<open>try\<close> block, leaves it as it is.
\<close>

datatype thrown = HttpsError string string | Uncaught exn

record manual_result =
  success :: bool
  successCount :: nat
  failureCount :: nat

definition manual_payload :: "string \<Rightarrow> string \<Rightarrow> string list \<Rightarrow> (string \<times> jsval) list option \<Rightarrow> multicast_message" where
  "manual_payload t b ts notificationData =
    \<lparr>notification = \<lparr>notification.title = t, body = b\<rparr>,
     data = (case notificationData of None \<Rightarrow> [] | Some d \<Rightarrow> d),
     android_priority = ''high'', android_sound = ''default'',
     android_channelId = ''reroute_notifications'',
     apns_sound = ''default'', apns_badge = 1,
     tokens = ts\<rparr>"

text \<open>
  \<open>auth\<close> is \<^verbatim>\<open>context.auth\<close>, given by its \<^verbatim>\<open>uid\<close> (\<open>None\<close> for an unauthenticated call; the
  identity provider never issues an empty uid);
  \<open>title'\<close>, \<open>body'\<close>, \<open>tokens'\<close> and \<open>notificationData\<close> are the fields destructured from
  \<^verbatim>\<open>data\<close>, \<open>None\<close> when the caller left one out.
\<close>

definition sendManualNotification ::
  "env \<Rightarrow> string option \<Rightarrow> string option \<Rightarrow> string option \<Rightarrow> string list option \<Rightarrow>
   (string \<times> jsval) list option \<Rightarrow> effect list \<times> (thrown + manual_result)" where
  "sendManualNotification env auth title' body' tokens' notificationData =
    (case auth of
       None \<Rightarrow> ([], Inl (HttpsError ''unauthenticated'' ''User must be authenticated''))
     | Some uid \<Rightarrow>
         (case firestore_users env of
            Inl e \<Rightarrow> ([Get_user uid], Inl (Uncaught e))
          | Inr docs \<Rightarrow>
              if doc_field docs uid role \<noteq> Some ''admin'' then
                ([Get_user uid], Inl (HttpsError ''permission-denied'' ''Only admins can send notifications''))
              else
                (case (title', body', tokens') of
                   (Some t, Some b, Some ts) \<Rightarrow>
                     if t = [] \<or> b = [] \<or> length ts = 0 then
                       ([Get_user uid],
                        Inl (HttpsError ''invalid-argument'' ''Missing required fields: title, body, or tokens''))
                     else
                       (let payload = manual_payload t b ts notificationData in
                        case messaging_sendEachForMulticast env payload of
                          Inl e \<Rightarrow>
                            ([Get_user uid, SendEachForMulticast payload],
                             Inl (HttpsError ''internal'' ''Failed to send notification''))
                        | Inr response \<Rightarrow>
                            ([Get_user uid, SendEachForMulticast payload],
                             Inr \<lparr>success = True, successCount = batch_response.successCount response,
                                  failureCount = batch_response.failureCount response\<rparr>))
                 | _ \<Rightarrow>
                     ([Get_user uid],
                      Inl (HttpsError ''invalid-argument'' ''Missing required fields: title, body, or tokens'')))))"

section \<open>Reading a trace of calls\<close>

definition multicast_calls :: "effect list \<Rightarrow> multicast_message list" where
  "multicast_calls effs = concat (map (\<lambda>e. case e of SendEachForMulticast p \<Rightarrow> [p] | _ \<Rightarrow> []) effs)"

definition send_calls :: "effect list \<Rightarrow> message list" where
  "send_calls effs = concat (map (\<lambda>e. case e of Send m \<Rightarrow> [m] | _ \<Rightarrow> []) effs)"

definition update_calls :: "effect list \<Rightarrow> comm_update list" where
  "update_calls effs = concat (map (\<lambda>e. case e of Update u \<Rightarrow> [u] | _ \<Rightarrow> []) effs)"

definition writes_performed :: "env \<Rightarrow> effect list \<Rightarrow> comm_update list" where
  \<comment> \<open>the update calls that returned: the writes that took effect on the record\<close>
  "writes_performed env effs = filter (\<lambda>u. ref_update env u = None) (update_calls effs)"

section \<open>The users of the specification's scenario\<close>

definition scenario_users :: "(string \<times> user) list" where
  "scenario_users =
    [(''1'', \<lparr>fcmToken = Some ''tA'', role = Some ''user'', is_active = True\<rparr>),
     (''2'', \<lparr>fcmToken = Some ''tB'', role = Some ''owner'', is_active = False\<rparr>),
     (''3'', \<lparr>fcmToken = None, role = Some ''admin'', is_active = True\<rparr>)]"

text \<open>A world where every call returns and the transport delivers to every token.\<close>

definition scenario_env :: env where
  "scenario_env =
    \<lparr>firestore_users = Inr scenario_users,
     messaging_sendEachForMulticast =
       (\<lambda>p. Inr \<lparr>batch_response.successCount = length (tokens p), failureCount = 0\<rparr>),
     messaging_send = (\<lambda>m. Inr ''projects/reroute/messages/1''),
     ref_update = (\<lambda>u. None),
     now = ''2024-01-01T00:00:00.000Z''\<rparr>"

text \<open>The same world with a messaging service that throws.\<close>

definition failing_env :: env where
  "failing_env =
    scenario_env\<lparr>messaging_sendEachForMulticast := (\<lambda>p. Inl (Error ''messaging/server-unavailable''))\<rparr>"

definition broadcast :: "string \<Rightarrow> communication" where
  \<comment> \<open>the scenario's message, sent with the given selector\<close>
  "broadcast selector =
    \<lparr>recipientType = Some selector, recipientId = None, recipientRole = None,
     title = Some ''Hi'', message = Some ''Hello'', type = None\<rparr>"

section \<open>Auxiliary facts\<close>

lemmas scenario_defs = scenario_env_def scenario_users_def failing_env_def broadcast_def

lemma set_truthy_tokens: "set (truthy_tokens vs) = {s. Some s \<in> set vs \<and> s \<noteq> []}"
  by (induction vs) (auto simp: truthy_tokens_def split: option.splits)

lemma length_truthy_tokens: "length (truthy_tokens vs) = length (filter truthy vs)"
  by (induction vs) (auto simp: truthy_tokens_def truthy_def split: option.splits)

text \<open>With unique document ids, reading \<^verbatim>\<open>users/x\<close> is selecting the documents whose id is \<open>x\<close>.\<close>

lemma map_of_filter_fst:
  "distinct (map fst docs) \<Longrightarrow>
   map snd (filter (\<lambda>doc. fst doc = x) docs) = (case map_of docs x of None \<Rightarrow> [] | Some d \<Rightarrow> [d])"
proof (induction docs)
  case Nil
  then show ?case by simp
next
  case (Cons a docs)
  then show ?case
    by (cases a) (auto split: option.splits simp: filter_empty_conv dest: map_of_SomeD weak_map_of_SomeI)
qed

lemma calls_append:
  "multicast_calls (xs @ ys) = multicast_calls xs @ multicast_calls ys"
  "send_calls (xs @ ys) = send_calls xs @ send_calls ys"
  "update_calls (xs @ ys) = update_calls xs @ update_calls ys"
  by (simp_all add: multicast_calls_def send_calls_def update_calls_def)

lemma calls_simps:
  "multicast_calls [] = []" "send_calls [] = []" "update_calls [] = []"
  "multicast_calls (SendEachForMulticast p # effs) = p # multicast_calls effs"
  "multicast_calls (Update u # effs) = multicast_calls effs"
  "multicast_calls (Send m # effs) = multicast_calls effs"
  "multicast_calls (Get_user i # effs) = multicast_calls effs"
  "multicast_calls (Get_users # effs) = multicast_calls effs"
  "multicast_calls (Get_users_where_role r # effs) = multicast_calls effs"
  "send_calls (SendEachForMulticast p # effs) = send_calls effs"
  "send_calls (Update u # effs) = send_calls effs"
  "send_calls (Send m # effs) = m # send_calls effs"
  "send_calls (Get_user i # effs) = send_calls effs"
  "send_calls (Get_users # effs) = send_calls effs"
  "send_calls (Get_users_where_role r # effs) = send_calls effs"
  "update_calls (SendEachForMulticast p # effs) = update_calls effs"
  "update_calls (Update u # effs) = u # update_calls effs"
  "update_calls (Send m # effs) = update_calls effs"
  "update_calls (Get_user i # effs) = update_calls effs"
  "update_calls (Get_users # effs) = update_calls effs"
  "update_calls (Get_users_where_role r # effs) = update_calls effs"
  by (simp_all add: multicast_calls_def send_calls_def update_calls_def)

text \<open>Resolving the recipients reads Firestore at most; it neither sends nor writes.\<close>

lemma recipientTokens_calls:
  "multicast_calls (fst (recipientTokens env c)) = []
   \<and> send_calls (fst (recipientTokens env c)) = []
   \<and> update_calls (fst (recipientTokens env c)) = []"
  by (simp add: recipientTokens_def multicast_calls_def send_calls_def update_calls_def
      split: sum.splits option.splits)

text \<open>
  The broadcast handler, path by path: what the recipient lookup, the transport and the
  write-back answer decides the calls it makes.
\<close>

lemma communication_lookup_throws:
  assumes "recipientTokens env c = (effs0, Inl e)"
  shows "fst (sendCommunicationNotification env cid c) = effs0 @ [Update (error_update e)]"
  using assms
  by (simp add: sendCommunicationNotification_def sendCommunication_try_def split: option.splits)

lemma communication_no_tokens:
  assumes "recipientTokens env c = (effs0, Inr [])"
  shows "sendCommunicationNotification env cid c = (effs0, Inr None)"
  using assms
  by (simp add: sendCommunicationNotification_def sendCommunication_try_def)

lemma communication_transport_throws:
  assumes "recipientTokens env c = (effs0, Inr ts)" and "ts \<noteq> []"
      and "messaging_sendEachForMulticast env (communication_payload env cid c ts) = Inl e"
  shows "fst (sendCommunicationNotification env cid c)
         = effs0 @ [SendEachForMulticast (communication_payload env cid c ts), Update (error_update e)]"
  using assms
  by (simp add: sendCommunicationNotification_def sendCommunication_try_def Let_def split: option.splits)

lemma communication_sent:
  assumes "recipientTokens env c = (effs0, Inr ts)" and "ts \<noteq> []"
      and "messaging_sendEachForMulticast env (communication_payload env cid c ts) = Inr response"
      and "ref_update env (sent_update response) = None"
  shows "sendCommunicationNotification env cid c
         = (effs0 @ [SendEachForMulticast (communication_payload env cid c ts), Update (sent_update response)],
            Inr (Some response))"
  using assms
  by (simp add: sendCommunicationNotification_def sendCommunication_try_def Let_def)

lemma communication_write_throws:
  assumes "recipientTokens env c = (effs0, Inr ts)" and "ts \<noteq> []"
      and "messaging_sendEachForMulticast env (communication_payload env cid c ts) = Inr response"
      and "ref_update env (sent_update response) = Some e"
  shows "fst (sendCommunicationNotification env cid c)
         = effs0 @ [SendEachForMulticast (communication_payload env cid c ts), Update (sent_update response),
                    Update (error_update e)]"
  using assms
  by (simp add: sendCommunicationNotification_def sendCommunication_try_def Let_def split: option.splits)

section \<open>Recipient resolution of a broadcast\<close>

text \<open>
  C1, as the code has it. With the \<^verbatim>\<open>users\<close> collection readable, \<^verbatim>\<open>all_users\<close> resolves to
  every user record; \<^verbatim>\<open>specific_user\<close> with a non-empty recipient id \<open>x\<close> resolves to exactly
  the user record whose id is \<open>x\<close>, whatever other users are present (document ids being
  unique); \<^verbatim>\<open>role\<close> with a non-empty recipient role \<open>r\<close> resolves to exactly the user records
  whose role is \<open>r\<close>, so that owners are reached with \<open>r = owner\<close>. The push tokens sent to
  are the non-empty tokens stored on the resolved records, in the order of the records.
\<close>

theorem recipient_resolution:
  assumes "firestore_users env = Inr docs"
  shows "(recipientType c = Some ''all_users'' \<longrightarrow>
            recipientTokens env c = ([Get_users], Inr (truthy_tokens (map (\<lambda>doc. fcmToken (snd doc)) docs))))
       \<and> (recipientType c = Some ''specific_user'' \<and> recipientId c = Some x \<and> x \<noteq> [] \<and> distinct (map fst docs) \<longrightarrow>
            recipientTokens env c =
              ([Get_user x], Inr (truthy_tokens (map (\<lambda>doc. fcmToken (snd doc)) (filter (\<lambda>doc. fst doc = x) docs)))))
       \<and> (recipientType c = Some ''role'' \<and> recipientRole c = Some r \<and> r \<noteq> [] \<longrightarrow>
            recipientTokens env c =
              ([Get_users_where_role r],
               Inr (truthy_tokens (map (\<lambda>doc. fcmToken (snd doc)) (filter (\<lambda>doc. role (snd doc) = Some r) docs)))))"
proof -
  have spec: "truthy_tokens [doc_field docs x fcmToken]
      = truthy_tokens (map (\<lambda>doc. fcmToken (snd doc)) (filter (\<lambda>doc. fst doc = x) docs))"
    if "distinct (map fst docs)"
  proof -
    have "map (\<lambda>doc. fcmToken (snd doc)) (filter (\<lambda>doc. fst doc = x) docs)
        = map fcmToken (map snd (filter (\<lambda>doc. fst doc = x) docs))"
      by simp
    also have "\<dots> = (case map_of docs x of None \<Rightarrow> [] | Some d \<Rightarrow> [fcmToken d])"
      using that by (simp add: map_of_filter_fst split: option.splits)
    finally show ?thesis
      by (simp add: doc_field_def truthy_tokens_def split: option.splits)
  qed
  show ?thesis
    using assms spec by (simp add: recipientTokens_def truthy_def)
qed

theorem recipient_resolution_witness:
  "recipientTokens scenario_env (broadcast ''all_users'') = ([Get_users], Inr [''tA'', ''tB''])
   \<and> recipientTokens scenario_env ((broadcast ''specific_user'')\<lparr>recipientId := Some ''2''\<rparr>)
       = ([Get_user ''2''], Inr [''tB''])
   \<and> recipientTokens scenario_env ((broadcast ''role'')\<lparr>recipientRole := Some ''owner''\<rparr>)
       = ([Get_users_where_role ''owner''], Inr [''tB''])"
  using recipient_resolution [of scenario_env scenario_users "broadcast ''all_users''"]
    recipient_resolution [of scenario_env scenario_users "(broadcast ''specific_user'')\<lparr>recipientId := Some ''2''\<rparr>" "''2''"]
    recipient_resolution [of scenario_env scenario_users "(broadcast ''role'')\<lparr>recipientRole := Some ''owner''\<rparr>" _ "''owner''"]
  by (simp add: scenario_defs truthy_tokens_def truthy_def)

text \<open>
  C1 as stated fails: on the scenario's users the selector \<^verbatim>\<open>active_users_only\<close> resolves to
  nobody although user 1 is active and has the token tA, and \<^verbatim>\<open>all_owners\<close> resolves to
  nobody although user 2 is an owner with the token tB.
\<close>

theorem active_users_only_unresolved:
  "recipientTokens scenario_env (broadcast ''active_users_only'') = ([], Inr [])
   \<and> truthy_tokens (map (\<lambda>doc. fcmToken (snd doc)) (filter (\<lambda>doc. is_active (snd doc)) scenario_users)) = [''tA'']
   \<and> recipientTokens scenario_env (broadcast ''all_owners'') = ([], Inr [])
   \<and> truthy_tokens (map (\<lambda>doc. fcmToken (snd doc)) (filter (\<lambda>doc. role (snd doc) = Some ''owner'') scenario_users)) = [''tB'']"
  by (simp add: recipientTokens_def scenario_defs truthy_tokens_def)

section \<open>The write-back of a broadcast\<close>

text \<open>
  C2, as the code has it. For every broadcast creation event at most one delivery-outcome
  write takes effect on the triggering record. When no push token is resolved the handler
  returns before sending and makes no write at all. When a token is resolved, or the
  recipient lookup throws, and the store accepts writes, it makes exactly one write, in
  the success case and in the transport-error case alike.
\<close>

theorem at_most_one_write:
  "length (writes_performed env (fst (sendCommunicationNotification env cid c))) \<le> 1
   \<and> (snd (recipientTokens env c) = Inr [] \<longrightarrow>
        update_calls (fst (sendCommunicationNotification env cid c)) = []
        \<and> multicast_calls (fst (sendCommunicationNotification env cid c)) = [])
   \<and> (snd (recipientTokens env c) \<noteq> Inr [] \<and> (\<forall>u. ref_update env u = None) \<longrightarrow>
        length (update_calls (fst (sendCommunicationNotification env cid c))) = 1
        \<and> length (writes_performed env (fst (sendCommunicationNotification env cid c))) = 1)"
proof -
  obtain effs0 r where R: "recipientTokens env c = (effs0, r)"
    by (cases "recipientTokens env c")
  have U0: "update_calls effs0 = []" and M0: "multicast_calls effs0 = []"
    using recipientTokens_calls [of env c] R by simp_all
  show ?thesis
  proof (cases r)
    case (Inl e)
    then show ?thesis
      using communication_lookup_throws [of env c effs0 e cid] R U0
      by (simp add: writes_performed_def calls_append calls_simps)
  next
    case (Inr ts)
    show ?thesis
    proof (cases "ts = []")
      case True
      then show ?thesis
        using communication_no_tokens [of env c effs0 cid] R Inr U0 M0
        by (simp add: writes_performed_def)
    next
      case False
      show ?thesis
      proof (cases "messaging_sendEachForMulticast env (communication_payload env cid c ts)")
        case (Inl e)
        then show ?thesis
          using communication_transport_throws [of env c effs0 ts cid e] R Inr False U0
          by (simp add: writes_performed_def calls_append calls_simps)
      next
        case resp: (Inr response)
        show ?thesis
        proof (cases "ref_update env (sent_update response)")
          case None
          then show ?thesis
            using communication_sent [of env c effs0 ts cid response] R Inr False U0 resp
            by (simp add: writes_performed_def calls_append calls_simps)
        next
          case (Some e)
          then show ?thesis
            using communication_write_throws [of env c effs0 ts cid response e] R Inr False U0 resp
            by (auto simp add: writes_performed_def calls_append calls_simps)
        qed
      qed
    qed
  qed
qed

theorem at_most_one_write_witness:
  "length (writes_performed scenario_env (fst (sendCommunicationNotification scenario_env ''c1'' (broadcast ''all_users'')))) = 1
   \<and> length (update_calls (fst (sendCommunicationNotification failing_env ''c1'' (broadcast ''all_users'')))) = 1
   \<and> update_calls (fst (sendCommunicationNotification scenario_env ''c1''
                           ((broadcast ''specific_user'')\<lparr>recipientId := Some ''3''\<rparr>))) = []"
  using at_most_one_write [of scenario_env "''c1''" "broadcast ''all_users''"]
    at_most_one_write [of failing_env "''c1''" "broadcast ''all_users''"]
    at_most_one_write [of scenario_env "''c1''" "(broadcast ''specific_user'')\<lparr>recipientId := Some ''3''\<rparr>"]
  by (simp add: recipientTokens_def scenario_defs truthy_tokens_def truthy_def doc_field_def)

text \<open>
  C2 as stated fails: a broadcast to user 3, who has no stored token, reads the user
  record and returns null; the triggering record is never written.
\<close>

theorem tokenless_recipient_no_write:
  "sendCommunicationNotification scenario_env ''c1'' ((broadcast ''specific_user'')\<lparr>recipientId := Some ''3''\<rparr>)
     = ([Get_user ''3''], Inr None)
   \<and> update_calls (fst (sendCommunicationNotification scenario_env ''c1''
                           ((broadcast ''specific_user'')\<lparr>recipientId := Some ''3''\<rparr>))) = []"
  by (simp add: sendCommunicationNotification_def sendCommunication_try_def recipientTokens_def
      scenario_defs truthy_tokens_def truthy_def doc_field_def update_calls_def)

section \<open>A transport exception of a broadcast\<close>

text \<open>
  C8. When at least one token is resolved and the batched transport call throws, the
  handler makes that one transport call and no other, then updates the triggering record
  with \<^verbatim>\<open>notificationSent = false\<close> and \<^verbatim>\<open>notificationError\<close> set to the exception's message
  (\<^verbatim>\<open>'Unknown error'\<close> for a thrown value that is not an \<^verbatim>\<open>Error\<close>); that update is its only
  one.
\<close>

theorem transport_exception_recorded:
  assumes "recipientTokens env c = (effs0, Inr ts)" and "ts \<noteq> []"
      and "messaging_sendEachForMulticast env (communication_payload env cid c ts) = Inl e"
  shows "fst (sendCommunicationNotification env cid c)
           = effs0 @ [SendEachForMulticast (communication_payload env cid c ts),
                      Update \<lparr>notificationSent = False, notificationSentAt = None, deliveryStatus = None,
                              notificationError = Some (case e of Error m \<Rightarrow> m | NonError \<Rightarrow> ''Unknown error'')\<rparr>]
       \<and> multicast_calls (fst (sendCommunicationNotification env cid c)) = [communication_payload env cid c ts]
       \<and> length (update_calls (fst (sendCommunicationNotification env cid c))) = 1"
proof -
  have "multicast_calls effs0 = []" and "update_calls effs0 = []"
    using recipientTokens_calls [of env c] assms(1) by simp_all
  then show ?thesis
    using communication_transport_throws [OF assms]
    by (simp add: error_update_def error_text_def calls_append calls_simps)
qed

theorem transport_exception_recorded_witness:
  "fst (sendCommunicationNotification failing_env ''c1'' (broadcast ''all_users''))
     = [Get_users,
        SendEachForMulticast (communication_payload failing_env ''c1'' (broadcast ''all_users'') [''tA'', ''tB'']),
        Update \<lparr>notificationSent = False, notificationSentAt = None, deliveryStatus = None,
                notificationError = Some ''messaging/server-unavailable''\<rparr>]"
proof -
  have R: "recipientTokens failing_env (broadcast ''all_users'') = ([Get_users], Inr [''tA'', ''tB''])"
    by (simp add: recipientTokens_def scenario_defs truthy_tokens_def)
  have T: "messaging_sendEachForMulticast failing_env
             (communication_payload failing_env ''c1'' (broadcast ''all_users'') [''tA'', ''tB''])
           = Inl (Error ''messaging/server-unavailable'')"
    by (simp add: failing_env_def)
  show ?thesis
    using transport_exception_recorded [OF R _ T] by simp
qed

section \<open>The change guard of the booking handler\<close>

text \<open>
  C6. When neither \<^verbatim>\<open>bookingStatus\<close> nor \<^verbatim>\<open>paymentStatus\<close> differs between the before and the
  after snapshot, the booking handler makes no call at all (no store lookup, no send, no
  write) and returns null, whatever else differs between the two snapshots. The fields
  are compared as the code compares them, with \<^verbatim>\<open>===\<close>: a null field and a missing field
  differ.
\<close>

theorem booking_guard_noop:
  assumes "bookingStatus before = bookingStatus after"
      and "paymentStatus before = paymentStatus after"
  shows "sendBookingStatusNotification env bookingId before after = ([], Null)"
  using assms by (simp add: sendBookingStatusNotification_def)

theorem booking_guard_noop_witness:
  "sendBookingStatusNotification scenario_env ''b1''
     \<lparr>bookingStatus = JStr ''confirmed'', paymentStatus = JStr ''paid'', userId = Some ''1'', user_id = None\<rparr>
     \<lparr>bookingStatus = JStr ''confirmed'', paymentStatus = JStr ''paid'', userId = Some ''1'', user_id = Some ''9''\<rparr>
   = ([], Null)"
  using booking_guard_noop [of "\<lparr>bookingStatus = JStr ''confirmed'', paymentStatus = JStr ''paid'', userId = Some ''1'', user_id = None\<rparr>"
     "\<lparr>bookingStatus = JStr ''confirmed'', paymentStatus = JStr ''paid'', userId = Some ''1'', user_id = Some ''9''\<rparr>" scenario_env "''b1''"]
  by simp

text \<open>
  A field going from null to missing is a change for \<^verbatim>\<open>===\<close>: the guard does not fire, and
  since it is \<^verbatim>\<open>bookingStatus\<close> that changed, the booking-status branch chooses the text.
\<close>

lemma booking_null_to_missing_is_a_change:
  "sendBookingStatusNotification scenario_env ''b1''
      \<lparr>bookingStatus = JNull, paymentStatus = JStr ''pending'', userId = Some ''1'', user_id = None\<rparr>
      \<lparr>bookingStatus = JUndefined, paymentStatus = JStr ''paid'', userId = Some ''1'', user_id = None\<rparr>
     = ([Get_user ''1'',
         Send \<lparr>notification = \<lparr>notification.title = ''Booking Update'', body = ''''\<rparr>,
               data = [(''bookingId'', JStr ''b1''), (''type'', JStr ''booking_update''),
                       (''bookingStatus'', JUndefined), (''paymentStatus'', JStr ''paid'')],
               android_priority = ''high'', android_sound = ''default'',
               android_channelId = ''reroute_notifications'', apns_sound = ''default'', apns_badge = 1,
               token = ''tA''\<rparr>],
        True_result)
   \<and> sendBookingStatusNotification scenario_env ''b1''
      \<lparr>bookingStatus = JNull, paymentStatus = JStr ''paid'', userId = Some ''1'', user_id = None\<rparr>
      \<lparr>bookingStatus = JNull, paymentStatus = JStr ''paid'', userId = Some ''1'', user_id = None\<rparr>
     = ([], Null)"
  by (simp add: sendBookingStatusNotification_def scenario_defs js_or_def truthy_def doc_field_def
      booking_payload_def booking_title_body_def)

section \<open>Further auxiliary facts\<close>

lemma stored_one:
  "t \<in> set (truthy_tokens [doc_field docs uid fcmToken]) \<Longrightarrow>
   t \<noteq> [] \<and> (\<exists>doc \<in> set docs. fcmToken (snd doc) = Some t)"
proof -
  assume t: "t \<in> set (truthy_tokens [doc_field docs uid fcmToken])"
  then have "doc_field docs uid fcmToken = Some t" and ne: "t \<noteq> []"
    by (simp_all add: set_truthy_tokens)
  then obtain d where "map_of docs uid = Some d" and "fcmToken d = Some t"
    by (auto simp add: doc_field_def split: option.splits)
  then have "(uid, d) \<in> set docs" and "fcmToken (snd (uid, d)) = Some t"
    by (simp_all add: map_of_SomeD)
  then show ?thesis
    using ne by blast
qed

lemma stored_many:
  "t \<in> set (truthy_tokens (map (\<lambda>doc. fcmToken (snd doc)) (filter P docs))) \<Longrightarrow>
   t \<noteq> [] \<and> (\<exists>doc \<in> set docs. fcmToken (snd doc) = Some t)"
proof -
  assume "t \<in> set (truthy_tokens (map (\<lambda>doc. fcmToken (snd doc)) (filter P docs)))"
  then obtain doc where "doc \<in> set docs" and "fcmToken (snd doc) = Some t" and "t \<noteq> []"
    by (auto simp add: set_truthy_tokens)
  then show ?thesis
    by blast
qed

lemma recipientTokens_stored:
  assumes "firestore_users env = Inr docs" and "recipientTokens env c = (effs0, Inr ts)"
      and "t \<in> set ts"
  shows "t \<noteq> [] \<and> (\<exists>doc \<in> set docs. fcmToken (snd doc) = Some t)"
proof -
  consider (all) "ts = truthy_tokens (map (\<lambda>doc. fcmToken (snd doc)) (filter (\<lambda>doc. True) docs))"
    | (one) uid where "ts = truthy_tokens [doc_field docs uid fcmToken]"
    | (role) r where "ts = truthy_tokens (map (\<lambda>doc. fcmToken (snd doc)) (filter (\<lambda>doc. role (snd doc) = Some r) docs))"
    | (none) "ts = []"
    using assms(1,2) by (auto simp add: recipientTokens_def split: if_splits option.splits)
  then show ?thesis
  proof cases
    case all
    then show ?thesis using assms(3) stored_many by blast
  next
    case one
    then show ?thesis using assms(3) stored_one by blast
  next
    case role
    then show ?thesis using assms(3) stored_many by blast
  next
    case none
    then show ?thesis using assms(3) by simp
  qed
qed


lemma communication_multicast_calls:
  assumes "recipientTokens env c = (effs0, r)"
  shows "multicast_calls (fst (sendCommunicationNotification env cid c))
         = (case r of Inl e \<Rightarrow> []
            | Inr ts \<Rightarrow> if ts = [] then [] else [communication_payload env cid c ts])"
proof -
  have "multicast_calls effs0 = []"
    using recipientTokens_calls [of env c] assms by simp
  then show ?thesis
    using assms
    by (simp add: sendCommunicationNotification_def sendCommunication_try_def Let_def
        calls_append calls_simps split: sum.splits option.splits)
qed

lemma communication_update_calls:
  assumes "recipientTokens env c = (effs0, r)"
  shows "update_calls (fst (sendCommunicationNotification env cid c))
         = (case r of Inl e \<Rightarrow> [error_update e]
            | Inr ts \<Rightarrow>
                if ts = [] then []
                else (case messaging_sendEachForMulticast env (communication_payload env cid c ts) of
                        Inl e \<Rightarrow> [error_update e]
                      | Inr response \<Rightarrow>
                          (case ref_update env (sent_update response) of
                             None \<Rightarrow> [sent_update response]
                           | Some e \<Rightarrow> [sent_update response, error_update e])))"
proof -
  have "update_calls effs0 = []"
    using recipientTokens_calls [of env c] assms by simp
  then show ?thesis
    using assms
    by (simp add: sendCommunicationNotification_def sendCommunication_try_def Let_def
        calls_append calls_simps split: sum.splits option.splits)
qed

lemma communication_returns:
  assumes "\<forall>u. ref_update env u = None"
  shows "\<exists>v. snd (sendCommunicationNotification env cid c) = Inr v"
  using assms
  by (simp add: sendCommunicationNotification_def sendCommunication_try_def Let_def
      split: sum.splits option.splits prod.splits)

lemma booking_sends:
  assumes "bookingStatus before \<noteq> bookingStatus after \<or> paymentStatus before \<noteq> paymentStatus after"
      and "js_or (userId after) (user_id after) = Some uid" and "uid \<noteq> []"
      and "firestore_users env = Inr docs"
      and "doc_field docs uid fcmToken = Some tok" and "tok \<noteq> []"
  shows "fst (sendBookingStatusNotification env bookingId before after)
         = [Get_user uid, Send (booking_payload bookingId before after tok)]"
  using assms
  by (auto simp add: sendBookingStatusNotification_def Let_def split: sum.splits)

lemma booking_send_calls:
  "send_calls (fst (sendBookingStatusNotification env bookingId before after)) = []
   \<or> (\<exists>tok. send_calls (fst (sendBookingStatusNotification env bookingId before after))
              = [booking_payload bookingId before after tok])"
  by (auto simp add: sendBookingStatusNotification_def Let_def calls_simps
      split: sum.splits option.splits)

lemma booking_other_calls:
  "multicast_calls (fst (sendBookingStatusNotification env bookingId before after)) = []
   \<and> update_calls (fst (sendBookingStatusNotification env bookingId before after)) = []"
  by (simp add: sendBookingStatusNotification_def Let_def calls_simps
      split: sum.splits option.splits)


section \<open>Recipients without a push token\<close>

text \<open>
  C3, as the code has it. With the \<^verbatim>\<open>users\<close> collection readable, every token handed to the
  transport is the non-empty token stored on some user record: a resolved recipient
  without a stored token adds nothing to the transport call, and the handler returns
  without an exception as long as the store accepts the write-back. The delivery status
  recorded by a successful write is the pair of counts the transport reported for that one
  call; for \<^verbatim>\<open>all_users\<close> the call carries as many tokens as there are users with a token.
  On the scenario's users a broadcast with selector \<^verbatim>\<open>all_users\<close> sends to tA and tB (user 3,
  who has no token, is left out) and records success 2, failure 0 when the transport
  reports success.
\<close>

theorem tokenless_recipients_excluded:
  assumes "firestore_users env = Inr docs"
  shows "(\<forall>p \<in> set (multicast_calls (fst (sendCommunicationNotification env cid c))).
            tokens p \<noteq> []
          \<and> (\<forall>t \<in> set (tokens p). t \<noteq> [] \<and> (\<exists>doc \<in> set docs. fcmToken (snd doc) = Some t)))
       \<and> ((\<forall>u. ref_update env u = None) \<longrightarrow> (\<exists>v. snd (sendCommunicationNotification env cid c) = Inr v))
       \<and> (\<forall>u \<in> set (update_calls (fst (sendCommunicationNotification env cid c))).
            notificationSent u \<longrightarrow>
            (\<exists>p response.
               multicast_calls (fst (sendCommunicationNotification env cid c)) = [p]
             \<and> messaging_sendEachForMulticast env p = Inr response
             \<and> deliveryStatus u = Some \<lparr>delivery_status.success = batch_response.successCount response,
                                         failure = batch_response.failureCount response\<rparr>))
       \<and> (recipientType c = Some ''all_users'' \<longrightarrow>
            (\<forall>p \<in> set (multicast_calls (fst (sendCommunicationNotification env cid c))).
               tokens p = truthy_tokens (map (\<lambda>doc. fcmToken (snd doc)) docs)
             \<and> length (tokens p) = length (filter (\<lambda>doc. truthy (fcmToken (snd doc))) docs)))
       \<and> sendCommunicationNotification scenario_env ''c1'' (broadcast ''all_users'')
           = ([Get_users,
               SendEachForMulticast
                 \<lparr>notification = \<lparr>notification.title = ''Hi'', body = ''Hello''\<rparr>,
                  data = [(''communicationId'', JStr ''c1''), (''type'', JStr ''general''),
                          (''timestamp'', JStr ''2024-01-01T00:00:00.000Z'')],
                  android_priority = ''high'', android_sound = ''default'',
                  android_channelId = ''reroute_notifications'', apns_sound = ''default'', apns_badge = 1,
                  tokens = [''tA'', ''tB'']\<rparr>,
               Update \<lparr>notificationSent = True, notificationSentAt = Some ServerTimestamp,
                       deliveryStatus = Some \<lparr>delivery_status.success = 2, failure = 0\<rparr>,
                       notificationError = None\<rparr>],
              Inr (Some \<lparr>batch_response.successCount = 2, failureCount = 0\<rparr>))"
proof -
  let ?H = "sendCommunicationNotification env cid c"
  obtain effs0 r where R: "recipientTokens env c = (effs0, r)"
    by (cases "recipientTokens env c")
  note M = communication_multicast_calls [OF R, of cid]
  note U = communication_update_calls [OF R, of cid]
  have payload_tokens: "tokens (communication_payload env cid c ts) = ts" for ts
    by (simp add: communication_payload_def)
  have excluded: "\<forall>p \<in> set (multicast_calls (fst ?H)).
            tokens p \<noteq> []
          \<and> (\<forall>t \<in> set (tokens p). t \<noteq> [] \<and> (\<exists>doc \<in> set docs. fcmToken (snd doc) = Some t))"
  proof (cases r)
    case (Inl e)
    then show ?thesis using M by simp
  next
    case (Inr ts)
    then show ?thesis
      using M recipientTokens_stored [OF assms, of c effs0 ts] R
      by (simp add: payload_tokens)
  qed
  have returns: "(\<forall>u. ref_update env u = None) \<longrightarrow> (\<exists>v. snd ?H = Inr v)"
    using communication_returns [of env cid c] by simp
  have counts: "\<forall>u \<in> set (update_calls (fst ?H)).
            notificationSent u \<longrightarrow>
            (\<exists>p response.
               multicast_calls (fst ?H) = [p]
             \<and> messaging_sendEachForMulticast env p = Inr response
             \<and> deliveryStatus u = Some \<lparr>delivery_status.success = batch_response.successCount response,
                                         failure = batch_response.failureCount response\<rparr>)"
    unfolding M U
    by (simp add: error_update_def sent_update_def split: sum.splits option.splits)
  have all_users: "recipientType c = Some ''all_users'' \<longrightarrow>
            (\<forall>p \<in> set (multicast_calls (fst ?H)).
               tokens p = truthy_tokens (map (\<lambda>doc. fcmToken (snd doc)) docs)
             \<and> length (tokens p) = length (filter (\<lambda>doc. truthy (fcmToken (snd doc))) docs))"
  proof
    assume "recipientType c = Some ''all_users''"
    then have "r = Inr (truthy_tokens (map (\<lambda>doc. fcmToken (snd doc)) docs))"
      using R assms by (simp add: recipientTokens_def)
    then show "\<forall>p \<in> set (multicast_calls (fst ?H)).
               tokens p = truthy_tokens (map (\<lambda>doc. fcmToken (snd doc)) docs)
             \<and> length (tokens p) = length (filter (\<lambda>doc. truthy (fcmToken (snd doc))) docs)"
      unfolding M by (simp add: payload_tokens length_truthy_tokens filter_map comp_def)
  qed
  have scenario: "sendCommunicationNotification scenario_env ''c1'' (broadcast ''all_users'')
           = ([Get_users,
               SendEachForMulticast
                 \<lparr>notification = \<lparr>notification.title = ''Hi'', body = ''Hello''\<rparr>,
                  data = [(''communicationId'', JStr ''c1''), (''type'', JStr ''general''),
                          (''timestamp'', JStr ''2024-01-01T00:00:00.000Z'')],
                  android_priority = ''high'', android_sound = ''default'',
                  android_channelId = ''reroute_notifications'', apns_sound = ''default'', apns_badge = 1,
                  tokens = [''tA'', ''tB'']\<rparr>,
               Update \<lparr>notificationSent = True, notificationSentAt = Some ServerTimestamp,
                       deliveryStatus = Some \<lparr>delivery_status.success = 2, failure = 0\<rparr>,
                       notificationError = None\<rparr>],
              Inr (Some \<lparr>batch_response.successCount = 2, failureCount = 0\<rparr>))"
    by (simp add: sendCommunicationNotification_def sendCommunication_try_def recipientTokens_def
        scenario_defs truthy_tokens_def communication_payload_def or_default_def sent_update_def Let_def)
  show ?thesis
    using excluded returns counts all_users scenario by blast
qed

theorem tokenless_recipients_excluded_witness:
  "multicast_calls (fst (sendCommunicationNotification scenario_env ''c1'' (broadcast ''all_users'')))
     = [\<lparr>notification = \<lparr>notification.title = ''Hi'', body = ''Hello''\<rparr>,
         data = [(''communicationId'', JStr ''c1''), (''type'', JStr ''general''),
                 (''timestamp'', JStr ''2024-01-01T00:00:00.000Z'')],
         android_priority = ''high'', android_sound = ''default'',
         android_channelId = ''reroute_notifications'', apns_sound = ''default'', apns_badge = 1,
         tokens = [''tA'', ''tB'']\<rparr>]
   \<and> truthy_tokens (map (\<lambda>doc. fcmToken (snd doc)) scenario_users) = [''tA'', ''tB'']
   \<and> length (filter (\<lambda>doc. truthy (fcmToken (snd doc))) scenario_users) = 2
   \<and> (\<exists>v. snd (sendCommunicationNotification scenario_env ''c1'' (broadcast ''all_users'')) = Inr v)"
proof -
  have users: "firestore_users scenario_env = Inr scenario_users"
    by (simp add: scenario_env_def)
  have writes: "\<forall>u. ref_update scenario_env u = None"
    by (simp add: scenario_env_def)
  have selector: "recipientType (broadcast ''all_users'') = Some ''all_users''"
    by (simp add: broadcast_def)
  note T = tokenless_recipients_excluded [OF users, of "''c1''" "broadcast ''all_users''"]
  note returns = T [THEN conjunct2, THEN conjunct1]
  note all_users = T [THEN conjunct2, THEN conjunct2, THEN conjunct2, THEN conjunct1]
  note scenario = T [THEN conjunct2, THEN conjunct2, THEN conjunct2, THEN conjunct2]
  have calls: "multicast_calls (fst (sendCommunicationNotification scenario_env ''c1'' (broadcast ''all_users'')))
     = [\<lparr>notification = \<lparr>notification.title = ''Hi'', body = ''Hello''\<rparr>,
         data = [(''communicationId'', JStr ''c1''), (''type'', JStr ''general''),
                 (''timestamp'', JStr ''2024-01-01T00:00:00.000Z'')],
         android_priority = ''high'', android_sound = ''default'',
         android_channelId = ''reroute_notifications'', apns_sound = ''default'', apns_badge = 1,
         tokens = [''tA'', ''tB'']\<rparr>]"
    by (simp only: scenario fst_conv calls_simps)
  have "truthy_tokens (map (\<lambda>doc. fcmToken (snd doc)) scenario_users) = [''tA'', ''tB'']
      \<and> length (filter (\<lambda>doc. truthy (fcmToken (snd doc))) scenario_users) = 2"
    using all_users selector unfolding calls by simp
  moreover have "\<exists>v. snd (sendCommunicationNotification scenario_env ''c1'' (broadcast ''all_users'')) = Inr v"
    using returns writes by (rule mp)
  ultimately show ?thesis
    using calls by simp
qed

text \<open>
  C3 as stated fails on its scenario: the broadcast with selector \<^verbatim>\<open>active_users_only\<close>
  sends to no token list and records no delivery status.
\<close>

theorem active_users_only_scenario_sends_nothing:
  "sendCommunicationNotification scenario_env ''c1'' (broadcast ''active_users_only'') = ([], Inr None)
   \<and> multicast_calls (fst (sendCommunicationNotification scenario_env ''c1'' (broadcast ''active_users_only''))) = []
   \<and> update_calls (fst (sendCommunicationNotification scenario_env ''c1'' (broadcast ''active_users_only''))) = []"
  by (simp add: sendCommunicationNotification_def sendCommunication_try_def recipientTokens_def
      scenario_defs calls_simps)

section \<open>The text of a booking notification\<close>

text \<open>
  C4, as the code has it. For a booking update that passes the change guard and whose user
  has a stored push token, one notification is sent to that token. If \<^verbatim>\<open>bookingStatus\<close>
  changed, its text comes from the booking-status table: confirmed, cancelled and
  completed have their fixed title and body, and any other value gets the default title
  \<^verbatim>\<open>Booking Update\<close> with an empty body. If only \<^verbatim>\<open>paymentStatus\<close> changed, paid, failed and
  refunded have their fixed title and body, and any other value gets the same default.
  A value outside the tables is therefore not ignored: the default text is sent.
\<close>

theorem booking_text_selection:
  assumes "bookingStatus before \<noteq> bookingStatus after \<or> paymentStatus before \<noteq> paymentStatus after"
      and "js_or (userId after) (user_id after) = Some uid" and "uid \<noteq> []"
      and "firestore_users env = Inr docs"
      and "doc_field docs uid fcmToken = Some tok" and "tok \<noteq> []"
  shows "fst (sendBookingStatusNotification env bookingId before after)
           = [Get_user uid, Send (booking_payload bookingId before after tok)]
     \<and> token (booking_payload bookingId before after tok) = tok
     \<and> (bookingStatus before \<noteq> bookingStatus after \<longrightarrow>
          (bookingStatus after = JStr ''confirmed'' \<longrightarrow>
             notification (booking_payload bookingId before after tok)
               = \<lparr>notification.title = ''Booking Confirmed'', body = ''Your booking has been confirmed!''\<rparr>)
        \<and> (bookingStatus after = JStr ''cancelled'' \<longrightarrow>
             notification (booking_payload bookingId before after tok)
               = \<lparr>notification.title = ''Booking Cancelled'', body = ''Your booking has been cancelled.''\<rparr>)
        \<and> (bookingStatus after = JStr ''completed'' \<longrightarrow>
             notification (booking_payload bookingId before after tok)
               = \<lparr>notification.title = ''Booking Completed'', body = ''Thank you for using our service!''\<rparr>)
        \<and> (bookingStatus after \<notin> {JStr ''confirmed'', JStr ''cancelled'', JStr ''completed''} \<longrightarrow>
             notification (booking_payload bookingId before after tok)
               = \<lparr>notification.title = ''Booking Update'', body = ''''\<rparr>))
     \<and> (bookingStatus before = bookingStatus after \<longrightarrow>
          (paymentStatus after = JStr ''paid'' \<longrightarrow>
             notification (booking_payload bookingId before after tok)
               = \<lparr>notification.title = ''Payment Successful'', body = ''Your payment has been received.''\<rparr>)
        \<and> (paymentStatus after = JStr ''failed'' \<longrightarrow>
             notification (booking_payload bookingId before after tok)
               = \<lparr>notification.title = ''Payment Failed'', body = ''Your payment could not be processed.''\<rparr>)
        \<and> (paymentStatus after = JStr ''refunded'' \<longrightarrow>
             notification (booking_payload bookingId before after tok)
               = \<lparr>notification.title = ''Payment Refunded'', body = ''Your payment has been refunded.''\<rparr>)
        \<and> (paymentStatus after \<notin> {JStr ''paid'', JStr ''failed'', JStr ''refunded''} \<longrightarrow>
             notification (booking_payload bookingId before after tok)
               = \<lparr>notification.title = ''Booking Update'', body = ''''\<rparr>))"
proof -
  have "fst (sendBookingStatusNotification env bookingId before after)
          = [Get_user uid, Send (booking_payload bookingId before after tok)]"
    using assms by (rule booking_sends)
  moreover have "token (booking_payload bookingId before after tok) = tok"
    by (simp add: booking_payload_def)
  moreover have "notification (booking_payload bookingId before after tok)
      = \<lparr>notification.title = fst (booking_title_body before after),
         body = snd (booking_title_body before after)\<rparr>"
    by (simp add: booking_payload_def)
  ultimately show ?thesis
    using assms(1) by (auto simp add: booking_title_body_def)
qed

theorem booking_text_selection_witness:
  "fst (sendBookingStatusNotification scenario_env ''b1''
      \<lparr>bookingStatus = JStr ''pending'', paymentStatus = JStr ''pending'', userId = Some ''1'', user_id = None\<rparr>
      \<lparr>bookingStatus = JStr ''confirmed'', paymentStatus = JStr ''pending'', userId = Some ''1'', user_id = None\<rparr>)
     = [Get_user ''1'',
        Send \<lparr>notification = \<lparr>notification.title = ''Booking Confirmed'', body = ''Your booking has been confirmed!''\<rparr>,
              data = [(''bookingId'', JStr ''b1''), (''type'', JStr ''booking_update''),
                      (''bookingStatus'', JStr ''confirmed''), (''paymentStatus'', JStr ''pending'')],
              android_priority = ''high'', android_sound = ''default'',
              android_channelId = ''reroute_notifications'', apns_sound = ''default'', apns_badge = 1,
              token = ''tA''\<rparr>]
   \<and> fst (sendBookingStatusNotification scenario_env ''b1''
      \<lparr>bookingStatus = JStr ''confirmed'', paymentStatus = JStr ''paid'', userId = None, user_id = Some ''2''\<rparr>
      \<lparr>bookingStatus = JStr ''confirmed'', paymentStatus = JStr ''refunded'', userId = None, user_id = Some ''2''\<rparr>)
     = [Get_user ''2'',
        Send \<lparr>notification = \<lparr>notification.title = ''Payment Refunded'', body = ''Your payment has been refunded.''\<rparr>,
              data = [(''bookingId'', JStr ''b1''), (''type'', JStr ''booking_update''),
                      (''bookingStatus'', JStr ''confirmed''), (''paymentStatus'', JStr ''refunded'')],
              android_priority = ''high'', android_sound = ''default'',
              android_channelId = ''reroute_notifications'', apns_sound = ''default'', apns_badge = 1,
              token = ''tB''\<rparr>]"
  using booking_text_selection [of
      "\<lparr>bookingStatus = JStr ''pending'', paymentStatus = JStr ''pending'', userId = Some ''1'', user_id = None\<rparr>"
      "\<lparr>bookingStatus = JStr ''confirmed'', paymentStatus = JStr ''pending'', userId = Some ''1'', user_id = None\<rparr>"
      "''1''" scenario_env scenario_users "''tA''" "''b1''"]
    booking_text_selection [of
      "\<lparr>bookingStatus = JStr ''confirmed'', paymentStatus = JStr ''paid'', userId = None, user_id = Some ''2''\<rparr>"
      "\<lparr>bookingStatus = JStr ''confirmed'', paymentStatus = JStr ''refunded'', userId = None, user_id = Some ''2''\<rparr>"
      "''2''" scenario_env scenario_users "''tB''" "''b1''"]
  by (simp add: scenario_defs js_or_def truthy_def doc_field_def booking_payload_def booking_title_body_def)

text \<open>
  C4 as stated fails: a booking going from confirmed to pending, and a payment going from
  paid to pending, each send a notification titled \<^verbatim>\<open>Booking Update\<close> with an empty body.
\<close>

theorem other_status_still_notified:
  "sendBookingStatusNotification scenario_env ''b1''
      \<lparr>bookingStatus = JStr ''confirmed'', paymentStatus = JStr ''paid'', userId = Some ''1'', user_id = None\<rparr>
      \<lparr>bookingStatus = JStr ''pending'', paymentStatus = JStr ''paid'', userId = Some ''1'', user_id = None\<rparr>
     = ([Get_user ''1'',
         Send \<lparr>notification = \<lparr>notification.title = ''Booking Update'', body = ''''\<rparr>,
               data = [(''bookingId'', JStr ''b1''), (''type'', JStr ''booking_update''),
                       (''bookingStatus'', JStr ''pending''), (''paymentStatus'', JStr ''paid'')],
               android_priority = ''high'', android_sound = ''default'',
               android_channelId = ''reroute_notifications'', apns_sound = ''default'', apns_badge = 1,
               token = ''tA''\<rparr>],
        True_result)
   \<and> sendBookingStatusNotification scenario_env ''b1''
      \<lparr>bookingStatus = JStr ''confirmed'', paymentStatus = JStr ''paid'', userId = Some ''1'', user_id = None\<rparr>
      \<lparr>bookingStatus = JStr ''confirmed'', paymentStatus = JStr ''pending'', userId = Some ''1'', user_id = None\<rparr>
     = ([Get_user ''1'',
         Send \<lparr>notification = \<lparr>notification.title = ''Booking Update'', body = ''''\<rparr>,
               data = [(''bookingId'', JStr ''b1''), (''type'', JStr ''booking_update''),
                       (''bookingStatus'', JStr ''confirmed''), (''paymentStatus'', JStr ''pending'')],
               android_priority = ''high'', android_sound = ''default'',
               android_channelId = ''reroute_notifications'', apns_sound = ''default'', apns_badge = 1,
               token = ''tA''\<rparr>],
        True_result)"
  by (simp add: sendBookingStatusNotification_def scenario_defs js_or_def truthy_def doc_field_def
      booking_payload_def booking_title_body_def)

section \<open>A booking update that changes both fields\<close>

text \<open>
  C5, as the code has it. When \<^verbatim>\<open>bookingStatus\<close> and \<^verbatim>\<open>paymentStatus\<close> both change in one
  update, the handler makes at most one send call, never two. When the booking's user has
  a stored push token it makes exactly one, to that token, and the text is the one chosen
  by the new booking status alone; it is never one of the payment messages.
\<close>

theorem one_push_for_double_change:
  assumes "bookingStatus before \<noteq> bookingStatus after"
      and "paymentStatus before \<noteq> paymentStatus after"
  shows "length (send_calls (fst (sendBookingStatusNotification env bookingId before after))) \<le> 1
     \<and> multicast_calls (fst (sendBookingStatusNotification env bookingId before after)) = []
     \<and> (js_or (userId after) (user_id after) = Some uid \<and> uid \<noteq> [] \<and> firestore_users env = Inr docs
          \<and> doc_field docs uid fcmToken = Some tok \<and> tok \<noteq> [] \<longrightarrow>
        send_calls (fst (sendBookingStatusNotification env bookingId before after))
          = [booking_payload bookingId before after tok]
        \<and> token (booking_payload bookingId before after tok) = tok
        \<and> notification (booking_payload bookingId before after tok) =
               (if bookingStatus after = JStr ''confirmed'' then
                  \<lparr>notification.title = ''Booking Confirmed'', body = ''Your booking has been confirmed!''\<rparr>
                else if bookingStatus after = JStr ''cancelled'' then
                  \<lparr>notification.title = ''Booking Cancelled'', body = ''Your booking has been cancelled.''\<rparr>
                else if bookingStatus after = JStr ''completed'' then
                  \<lparr>notification.title = ''Booking Completed'', body = ''Thank you for using our service!''\<rparr>
                else \<lparr>notification.title = ''Booking Update'', body = ''''\<rparr>)
        \<and> notification.title (notification (booking_payload bookingId before after tok))
             \<notin> {''Payment Successful'', ''Payment Failed'', ''Payment Refunded''})"
proof -
  have one: "length (send_calls (fst (sendBookingStatusNotification env bookingId before after))) \<le> 1"
    using booking_send_calls [of env bookingId before after] by auto
  have none: "multicast_calls (fst (sendBookingStatusNotification env bookingId before after)) = []"
    using booking_other_calls [of env bookingId before after] by simp
  have sent: "send_calls (fst (sendBookingStatusNotification env bookingId before after))
          = [booking_payload bookingId before after tok]"
    if r: "js_or (userId after) (user_id after) = Some uid" "uid \<noteq> []" "firestore_users env = Inr docs"
          "doc_field docs uid fcmToken = Some tok" "tok \<noteq> []"
  proof -
    have "fst (sendBookingStatusNotification env bookingId before after)
            = [Get_user uid, Send (booking_payload bookingId before after tok)]"
      using assms(1) r by (intro booking_sends) simp_all
    then show ?thesis
      by (simp add: calls_simps)
  qed
  have text_of: "token (booking_payload bookingId before after tok) = tok
        \<and> notification (booking_payload bookingId before after tok) =
               (if bookingStatus after = JStr ''confirmed'' then
                  \<lparr>notification.title = ''Booking Confirmed'', body = ''Your booking has been confirmed!''\<rparr>
                else if bookingStatus after = JStr ''cancelled'' then
                  \<lparr>notification.title = ''Booking Cancelled'', body = ''Your booking has been cancelled.''\<rparr>
                else if bookingStatus after = JStr ''completed'' then
                  \<lparr>notification.title = ''Booking Completed'', body = ''Thank you for using our service!''\<rparr>
                else \<lparr>notification.title = ''Booking Update'', body = ''''\<rparr>)
        \<and> notification.title (notification (booking_payload bookingId before after tok))
             \<notin> {''Payment Successful'', ''Payment Failed'', ''Payment Refunded''}"
    using assms(1) by (simp add: booking_payload_def booking_title_body_def)
  show ?thesis
    using one none sent text_of by blast
qed

theorem one_push_for_double_change_witness:
  "send_calls (fst (sendBookingStatusNotification scenario_env ''b1''
      \<lparr>bookingStatus = JStr ''pending'', paymentStatus = JStr ''pending'', userId = Some ''1'', user_id = None\<rparr>
      \<lparr>bookingStatus = JStr ''confirmed'', paymentStatus = JStr ''paid'', userId = Some ''1'', user_id = None\<rparr>))
     = [\<lparr>notification = \<lparr>notification.title = ''Booking Confirmed'', body = ''Your booking has been confirmed!''\<rparr>,
         data = [(''bookingId'', JStr ''b1''), (''type'', JStr ''booking_update''),
                 (''bookingStatus'', JStr ''confirmed''), (''paymentStatus'', JStr ''paid'')],
         android_priority = ''high'', android_sound = ''default'',
         android_channelId = ''reroute_notifications'', apns_sound = ''default'', apns_badge = 1,
         token = ''tA''\<rparr>]"
  using one_push_for_double_change [of
      "\<lparr>bookingStatus = JStr ''pending'', paymentStatus = JStr ''pending'', userId = Some ''1'', user_id = None\<rparr>"
      "\<lparr>bookingStatus = JStr ''confirmed'', paymentStatus = JStr ''paid'', userId = Some ''1'', user_id = None\<rparr>"
      scenario_env "''b1''" "''1''" scenario_users "''tA''"]
  by (simp add: scenario_defs js_or_def truthy_def doc_field_def booking_payload_def booking_title_body_def)

text \<open>
  C5 as stated fails: when both fields change on a booking of user 3, who has no stored
  token, no push is sent.
\<close>

theorem double_change_without_token_no_push:
  "sendBookingStatusNotification scenario_env ''b1''
      \<lparr>bookingStatus = JStr ''pending'', paymentStatus = JStr ''pending'', userId = Some ''3'', user_id = None\<rparr>
      \<lparr>bookingStatus = JStr ''confirmed'', paymentStatus = JStr ''paid'', userId = Some ''3'', user_id = None\<rparr>
     = ([Get_user ''3''], Null)
   \<and> send_calls (fst (sendBookingStatusNotification scenario_env ''b1''
      \<lparr>bookingStatus = JStr ''pending'', paymentStatus = JStr ''pending'', userId = Some ''3'', user_id = None\<rparr>
      \<lparr>bookingStatus = JStr ''confirmed'', paymentStatus = JStr ''paid'', userId = Some ''3'', user_id = None\<rparr>)) = []"
  by (simp add: sendBookingStatusNotification_def scenario_defs js_or_def truthy_def doc_field_def calls_simps)

section \<open>The farmhouse approval notification\<close>





section \<open>Validation of a manual send\<close>

text \<open>
  C7, as the code has it. A manual send with a missing or empty title, a missing or empty
  body, or a missing or empty token list makes no transport call and throws, whoever
  calls. For an authenticated admin the error thrown is \<^verbatim>\<open>invalid-argument\<close>. Authorization
  is checked first: an unauthenticated caller gets \<^verbatim>\<open>unauthenticated\<close> and a caller who is not
  an admin gets \<^verbatim>\<open>permission-denied\<close> instead, so the validation error is distinct from the
  authorization errors.
\<close>

theorem manual_validation:
  assumes "\<not> truthy title' \<or> \<not> truthy body' \<or> tokens' = None \<or> tokens' = Some []"
  shows "multicast_calls (fst (sendManualNotification env auth title' body' tokens' notificationData)) = []
     \<and> send_calls (fst (sendManualNotification env auth title' body' tokens' notificationData)) = []
     \<and> (\<exists>t. snd (sendManualNotification env auth title' body' tokens' notificationData) = Inl t)
     \<and> (auth = Some uid \<and> firestore_users env = Inr docs \<and> doc_field docs uid role = Some ''admin'' \<longrightarrow>
          sendManualNotification env auth title' body' tokens' notificationData
            = ([Get_user uid],
               Inl (HttpsError ''invalid-argument'' ''Missing required fields: title, body, or tokens'')))
     \<and> (auth = None \<longrightarrow>
          sendManualNotification env auth title' body' tokens' notificationData
            = ([], Inl (HttpsError ''unauthenticated'' ''User must be authenticated'')))
     \<and> (auth = Some uid \<and> firestore_users env = Inr docs \<and> doc_field docs uid role \<noteq> Some ''admin'' \<longrightarrow>
          sendManualNotification env auth title' body' tokens' notificationData
            = ([Get_user uid], Inl (HttpsError ''permission-denied'' ''Only admins can send notifications'')))"
  using assms
  by (auto simp add: sendManualNotification_def truthy_def calls_simps
      split: option.splits sum.splits)

theorem manual_validation_witness:
  "sendManualNotification scenario_env (Some ''3'') (Some ''Hi'') (Some ''Hello'') (Some []) None
     = ([Get_user ''3''], Inl (HttpsError ''invalid-argument'' ''Missing required fields: title, body, or tokens''))
   \<and> sendManualNotification scenario_env (Some ''3'') None (Some ''Hello'') (Some [''tA'']) None
     = ([Get_user ''3''], Inl (HttpsError ''invalid-argument'' ''Missing required fields: title, body, or tokens''))
   \<and> multicast_calls (fst (sendManualNotification scenario_env (Some ''1'') (Some ''Hi'') None (Some [''tA'']) None)) = []"
  using manual_validation [of "Some ''Hi''" "Some ''Hello''" "Some []" scenario_env "Some ''3''" None "''3''" scenario_users]
    manual_validation [of None "Some ''Hello''" "Some [''tA'']" scenario_env "Some ''3''" None "''3''" scenario_users]
    manual_validation [of "Some ''Hi''" None "Some [''tA'']" scenario_env "Some ''1''" None]
  by (simp add: scenario_defs doc_field_def truthy_def)

text \<open>
  C7 as stated fails: with an empty token list, user 1 (not an admin) gets
  \<^verbatim>\<open>permission-denied\<close> and an unauthenticated caller gets \<^verbatim>\<open>unauthenticated\<close>, not
  \<^verbatim>\<open>invalid-argument\<close>.
\<close>

theorem non_admin_empty_tokens_permission_denied:
  "sendManualNotification scenario_env (Some ''1'') (Some ''Hi'') (Some ''Hello'') (Some []) None
     = ([Get_user ''1''], Inl (HttpsError ''permission-denied'' ''Only admins can send notifications''))
   \<and> sendManualNotification scenario_env None (Some ''Hi'') (Some ''Hello'') (Some []) None
     = ([], Inl (HttpsError ''unauthenticated'' ''User must be authenticated''))"
  by (simp add: sendManualNotification_def scenario_defs doc_field_def)

section \<open>What a manual send returns\<close>

text \<open>
  C10. Every value returned by the manual send has \<^verbatim>\<open>success = true\<close> and carries the
  success and failure counts of the transport's response to the one call made. Every
  failure is thrown: \<^verbatim>\<open>unauthenticated\<close> without a caller identity, \<^verbatim>\<open>permission-denied\<close> for
  a caller who is not an admin, \<^verbatim>\<open>invalid-argument\<close> for a missing title, body or token
  list, and for a transport exception the fixed error \<^verbatim>\<open>internal\<close>,
  \<^verbatim>\<open>Failed to send notification\<close>, whatever the exception was.
\<close>

theorem manual_returns_success_only:
  "(\<forall>res. snd (sendManualNotification env auth title' body' tokens' notificationData) = Inr res \<longrightarrow>
      success res
      \<and> (\<exists>uid t b ts response.
            auth = Some uid \<and> title' = Some t \<and> body' = Some b \<and> tokens' = Some ts
          \<and> fst (sendManualNotification env auth title' body' tokens' notificationData)
              = [Get_user uid, SendEachForMulticast (manual_payload t b ts notificationData)]
          \<and> messaging_sendEachForMulticast env (manual_payload t b ts notificationData) = Inr response
          \<and> successCount res = batch_response.successCount response
          \<and> failureCount res = batch_response.failureCount response))
   \<and> (auth = None \<longrightarrow>
        snd (sendManualNotification env auth title' body' tokens' notificationData)
          = Inl (HttpsError ''unauthenticated'' ''User must be authenticated''))
   \<and> (auth = Some uid \<and> firestore_users env = Inr docs \<and> doc_field docs uid role \<noteq> Some ''admin'' \<longrightarrow>
        snd (sendManualNotification env auth title' body' tokens' notificationData)
          = Inl (HttpsError ''permission-denied'' ''Only admins can send notifications''))
   \<and> (auth = Some uid \<and> firestore_users env = Inr docs \<and> doc_field docs uid role = Some ''admin''
        \<and> (\<not> truthy title' \<or> \<not> truthy body' \<or> tokens' = None \<or> tokens' = Some []) \<longrightarrow>
        snd (sendManualNotification env auth title' body' tokens' notificationData)
          = Inl (HttpsError ''invalid-argument'' ''Missing required fields: title, body, or tokens''))
   \<and> (auth = Some uid \<and> firestore_users env = Inr docs \<and> doc_field docs uid role = Some ''admin''
        \<and> title' = Some t \<and> t \<noteq> [] \<and> body' = Some b \<and> b \<noteq> [] \<and> tokens' = Some ts \<and> ts \<noteq> []
        \<and> messaging_sendEachForMulticast env (manual_payload t b ts notificationData) = Inl e \<longrightarrow>
        sendManualNotification env auth title' body' tokens' notificationData
          = ([Get_user uid, SendEachForMulticast (manual_payload t b ts notificationData)],
             Inl (HttpsError ''internal'' ''Failed to send notification'')))"
proof -
  have returned: "\<forall>res. snd (sendManualNotification env auth title' body' tokens' notificationData) = Inr res \<longrightarrow>
      success res
      \<and> (\<exists>uid t b ts response.
            auth = Some uid \<and> title' = Some t \<and> body' = Some b \<and> tokens' = Some ts
          \<and> fst (sendManualNotification env auth title' body' tokens' notificationData)
              = [Get_user uid, SendEachForMulticast (manual_payload t b ts notificationData)]
          \<and> messaging_sendEachForMulticast env (manual_payload t b ts notificationData) = Inr response
          \<and> successCount res = batch_response.successCount response
          \<and> failureCount res = batch_response.failureCount response)"
    by (auto simp add: sendManualNotification_def Let_def split: option.splits sum.splits if_splits)
  have thrown: "auth = None \<longrightarrow>
        snd (sendManualNotification env auth title' body' tokens' notificationData)
          = Inl (HttpsError ''unauthenticated'' ''User must be authenticated'')"
    "auth = Some uid \<and> firestore_users env = Inr docs \<and> doc_field docs uid role \<noteq> Some ''admin'' \<longrightarrow>
        snd (sendManualNotification env auth title' body' tokens' notificationData)
          = Inl (HttpsError ''permission-denied'' ''Only admins can send notifications'')"
    "auth = Some uid \<and> firestore_users env = Inr docs \<and> doc_field docs uid role = Some ''admin''
        \<and> (\<not> truthy title' \<or> \<not> truthy body' \<or> tokens' = None \<or> tokens' = Some []) \<longrightarrow>
        snd (sendManualNotification env auth title' body' tokens' notificationData)
          = Inl (HttpsError ''invalid-argument'' ''Missing required fields: title, body, or tokens'')"
    "auth = Some uid \<and> firestore_users env = Inr docs \<and> doc_field docs uid role = Some ''admin''
        \<and> title' = Some t \<and> t \<noteq> [] \<and> body' = Some b \<and> b \<noteq> [] \<and> tokens' = Some ts \<and> ts \<noteq> []
        \<and> messaging_sendEachForMulticast env (manual_payload t b ts notificationData) = Inl e \<longrightarrow>
        sendManualNotification env auth title' body' tokens' notificationData
          = ([Get_user uid, SendEachForMulticast (manual_payload t b ts notificationData)],
             Inl (HttpsError ''internal'' ''Failed to send notification''))"
    by (auto simp add: sendManualNotification_def truthy_def Let_def split: option.splits)
  show ?thesis
    using returned thrown by blast
qed

theorem manual_returns_success_only_witness:
  "snd (sendManualNotification scenario_env (Some ''3'') (Some ''Hi'') (Some ''Hello'') (Some [''tA'', ''tB'']) None)
     = Inr \<lparr>success = True, successCount = 2, failureCount = 0\<rparr>
   \<and> snd (sendManualNotification failing_env (Some ''3'') (Some ''Hi'') (Some ''Hello'') (Some [''tA'', ''tB'']) None)
     = Inl (HttpsError ''internal'' ''Failed to send notification'')
   \<and> snd (sendManualNotification scenario_env None (Some ''Hi'') (Some ''Hello'') (Some [''tA'']) None)
     = Inl (HttpsError ''unauthenticated'' ''User must be authenticated'')
   \<and> snd (sendManualNotification scenario_env (Some ''2'') (Some ''Hi'') (Some ''Hello'') (Some [''tA'']) None)
     = Inl (HttpsError ''permission-denied'' ''Only admins can send notifications'')
   \<and> snd (sendManualNotification scenario_env (Some ''3'') (Some ''Hi'') (Some []) (Some [''tA'']) None)
     = Inl (HttpsError ''invalid-argument'' ''Missing required fields: title, body, or tokens'')"
proof -
  have ok: "snd (sendManualNotification scenario_env (Some ''3'') (Some ''Hi'') (Some ''Hello'') (Some [''tA'', ''tB'']) None)
     = Inr \<lparr>success = True, successCount = 2, failureCount = 0\<rparr>"
    by (simp add: sendManualNotification_def scenario_defs doc_field_def manual_payload_def)
  have "success \<lparr>success = True, successCount = 2, failureCount = 0\<rparr>"
    using manual_returns_success_only [of scenario_env "Some ''3''" "Some ''Hi''" "Some ''Hello''"
        "Some [''tA'', ''tB'']" None] ok
    by blast
  moreover have "snd (sendManualNotification failing_env (Some ''3'') (Some ''Hi'') (Some ''Hello'') (Some [''tA'', ''tB'']) None)
     = Inl (HttpsError ''internal'' ''Failed to send notification'')"
    using manual_returns_success_only [of failing_env "Some ''3''" "Some ''Hi''" "Some ''Hello''"
        "Some [''tA'', ''tB'']" None "''3''" scenario_users "''Hi''" "''Hello''" "[''tA'', ''tB'']"
        "Error ''messaging/server-unavailable''"]
    by (simp add: scenario_defs doc_field_def)
  moreover have "snd (sendManualNotification scenario_env None (Some ''Hi'') (Some ''Hello'') (Some [''tA'']) None)
     = Inl (HttpsError ''unauthenticated'' ''User must be authenticated'')"
    using manual_returns_success_only [of scenario_env None "Some ''Hi''" "Some ''Hello''" "Some [''tA'']" None]
    by simp
  moreover have "snd (sendManualNotification scenario_env (Some ''2'') (Some ''Hi'') (Some ''Hello'') (Some [''tA'']) None)
     = Inl (HttpsError ''permission-denied'' ''Only admins can send notifications'')"
    using manual_returns_success_only [of scenario_env "Some ''2''" "Some ''Hi''" "Some ''Hello''" "Some [''tA'']" None
        "''2''" scenario_users]
    by (simp add: scenario_defs doc_field_def)
  moreover have "snd (sendManualNotification scenario_env (Some ''3'') (Some ''Hi'') (Some []) (Some [''tA'']) None)
     = Inl (HttpsError ''invalid-argument'' ''Missing required fields: title, body, or tokens'')"
    using manual_returns_success_only [of scenario_env "Some ''3''" "Some ''Hi''" "Some []" "Some [''tA'']" None
        "''3''" scenario_users]
    by (simp add: scenario_defs doc_field_def truthy_def)
  ultimately show ?thesis
    using ok by simp
qed

end
